theory Spec2Isabelle
  imports Main "HOL-Library.Word"
begin

section \<open>JavaScript values used by the upload relay\<close>

text \<open>
  The relay is the single handler of \<^verbatim>\<open>POST /api/proxy-upload\<close> in \<^verbatim>\<open>src/index.js\<close>
  (the file holds the handler twice, once with and once without its console logging;
  the two copies compute the same results, and the line numbers below are those of the
  first copy). A JavaScript string is a sequence of UTF-16 code units, a \<^verbatim>\<open>Buffer\<close> a
  sequence of bytes. Object literals are kept as association lists in the order the
  source writes their properties.
\<close>

type_synonym jsstring = "16 word list"
type_synonym byte = "8 word"

definition js :: "string \<Rightarrow> jsstring" where
  "js s = map of_char s"

datatype jsval =
    JUndefined
  | JNull
  | JBool bool
  | JNum nat
  | JStr jsstring
  | JArr "jsval list"
  | JObj "(string \<times> jsval) list"

text \<open>Property access \<^verbatim>\<open>o.k\<close> on an object built by an object literal.\<close>

fun get :: "jsval \<Rightarrow> string \<Rightarrow> jsval" where
  "get (JObj kvs) k = (case map_of kvs k of None \<Rightarrow> JUndefined | Some v \<Rightarrow> v)"
| "get _ k = JUndefined"

text \<open>ToBoolean, as used by \<^verbatim>\<open>!x\<close>, \<^verbatim>\<open>x || y\<close>, \<^verbatim>\<open>x ? a : b\<close> and \<^verbatim>\<open>filter\<close>.\<close>

fun truthy :: "jsval \<Rightarrow> bool" where
  "truthy JUndefined = False"
| "truthy JNull = False"
| "truthy (JBool b) = b"
| "truthy (JNum n) = (n \<noteq> 0)"
| "truthy (JStr s) = (s \<noteq> [])"
| "truthy (JArr xs) = True"
| "truthy (JObj kvs) = True"

text \<open>A form field or file property that may be missing: \<^verbatim>\<open>undefined\<close> or a string.\<close>

fun field :: "jsstring option \<Rightarrow> jsval" where
  "field None = JUndefined"
| "field (Some s) = JStr s"

text \<open>Decimal rendering of a non-negative integer, as a template literal does.\<close>

fun decimal :: "nat \<Rightarrow> jsstring" where
  "decimal n = (if n < 10 then [of_nat (48 + n)] else decimal (n div 10) @ [of_nat (48 + n mod 10)])"

fun join :: "jsstring \<Rightarrow> jsstring list \<Rightarrow> jsstring" where
  "join sep [] = []"
| "join sep [x] = x"
| "join sep (x # y # xs) = x @ sep @ join sep (y # xs)"

text \<open>ToString, as applied to a value interpolated into a template literal.\<close>

fun to_string :: "jsval \<Rightarrow> jsstring" where
  "to_string JUndefined = js ''undefined''"
| "to_string JNull = js ''null''"
| "to_string (JBool b) = (if b then js ''true'' else js ''false'')"
| "to_string (JNum n) = decimal n"
| "to_string (JStr s) = s"
| "to_string (JArr xs) =
     join (js '','') (map (\<lambda>x. if x = JUndefined \<or> x = JNull then [] else to_string x) xs)"
| "to_string (JObj kvs) = js ''[object Object]''"

text \<open>
  \<^verbatim>\<open>String.prototype.trim\<close>: removes the ECMAScript WhiteSpace and LineTerminator code
  units from both ends.
\<close>

definition is_white_space :: "16 word \<Rightarrow> bool" where
  "is_white_space c =
     (c = 0x0009 \<or> c = 0x000A \<or> c = 0x000B \<or> c = 0x000C \<or> c = 0x000D \<or> c = 0x0020
      \<or> c = 0x00A0 \<or> c = 0x1680 \<or> (0x2000 \<le> c \<and> c \<le> 0x200A) \<or> c = 0x2028
      \<or> c = 0x2029 \<or> c = 0x202F \<or> c = 0x205F \<or> c = 0x3000 \<or> c = 0xFEFF)"

definition trim :: "jsstring \<Rightarrow> jsstring" where
  "trim s = rev (dropWhile is_white_space (rev (dropWhile is_white_space s)))"

section \<open>Base64 text of a buffer\<close>

text \<open>
  \<^verbatim>\<open>file.buffer.toString('base64')\<close> (line 66) is the standard alphabet of RFC 4648
  with \<^verbatim>\<open>=\<close> padding: three bytes give four sextets, a final group of one or two
  bytes is filled with zero bits and padded.
\<close>

definition base64_char :: "nat \<Rightarrow> 16 word" where
  "base64_char n =
     (if n < 26 then of_nat (n + 65)
      else if n < 52 then of_nat (n + 71)
      else if n < 62 then of_nat (n - 4)
      else if n = 62 then 43
      else 47)"

definition base64_pad :: "16 word" where
  "base64_pad = 61"

definition sextet1 :: "byte \<Rightarrow> nat" where
  "sextet1 a = unat a div 4"

definition sextet2 :: "byte \<Rightarrow> byte \<Rightarrow> nat" where
  "sextet2 a b = unat a mod 4 * 16 + unat b div 16"

definition sextet3 :: "byte \<Rightarrow> byte \<Rightarrow> nat" where
  "sextet3 b c = unat b mod 16 * 4 + unat c div 64"

definition sextet4 :: "byte \<Rightarrow> nat" where
  "sextet4 c = unat c mod 64"

fun base64_encode :: "byte list \<Rightarrow> jsstring" where
  "base64_encode [] = []"
| "base64_encode [a] =
     [base64_char (sextet1 a), base64_char (sextet2 a 0), base64_pad, base64_pad]"
| "base64_encode [a, b] =
     [base64_char (sextet1 a), base64_char (sextet2 a b), base64_char (sextet3 b 0),
      base64_pad]"
| "base64_encode (a # b # c # rest) =
     [base64_char (sextet1 a), base64_char (sextet2 a b), base64_char (sextet3 b c),
      base64_char (sextet4 c)] @ base64_encode rest"

text \<open>
  The decoder of RFC 4648, the inverse the receiving side applies: it reads groups of
  four characters, accepts padding only in the last group and fails on any character
  outside the alphabet.
\<close>

definition base64_index :: "16 word \<Rightarrow> nat option" where
  "base64_index w =
     (let c = unat w in
      if 65 \<le> c \<and> c \<le> 90 then Some (c - 65)
      else if 97 \<le> c \<and> c \<le> 122 then Some (c - 71)
      else if 48 \<le> c \<and> c \<le> 57 then Some (c + 4)
      else if c = 43 then Some 62
      else if c = 47 then Some 63
      else None)"

definition octet1 :: "nat \<Rightarrow> nat \<Rightarrow> byte" where
  "octet1 s1 s2 = of_nat (s1 * 4 + s2 div 16)"

definition octet2 :: "nat \<Rightarrow> nat \<Rightarrow> byte" where
  "octet2 s2 s3 = of_nat (s2 mod 16 * 16 + s3 div 4)"

definition octet3 :: "nat \<Rightarrow> nat \<Rightarrow> byte" where
  "octet3 s3 s4 = of_nat (s3 mod 4 * 64 + s4)"

fun base64_decode :: "jsstring \<Rightarrow> byte list option" where
  "base64_decode [] = Some []"
| "base64_decode (c1 # c2 # c3 # c4 # rest) =
     (case (base64_index c1, base64_index c2) of
        (Some s1, Some s2) \<Rightarrow>
          (if rest = [] \<and> c3 = base64_pad \<and> c4 = base64_pad
           then Some [octet1 s1 s2]
           else case base64_index c3 of
             None \<Rightarrow> None
           | Some s3 \<Rightarrow>
               (if rest = [] \<and> c4 = base64_pad
                then Some [octet1 s1 s2, octet2 s2 s3]
                else case base64_index c4 of
                  None \<Rightarrow> None
                | Some s4 \<Rightarrow>
                    (case base64_decode rest of
                       None \<Rightarrow> None
                     | Some bs \<Rightarrow> Some (octet1 s1 s2 # octet2 s2 s3 # octet3 s3 s4 # bs))))
      | _ \<Rightarrow> None)"
| "base64_decode _ = None"

section \<open>The request and the outside world\<close>

text \<open>
  \<^verbatim>\<open>upload.array('file')\<close> (multer with its default memory storage) gives every file
  an \<^verbatim>\<open>originalname\<close>, a \<^verbatim>\<open>size\<close> and a \<^verbatim>\<open>buffer\<close>. The handler reads the three
  independently, so the model keeps \<^verbatim>\<open>size\<close> as a field of its own.
\<close>

record uploaded_file =
  originalname :: "jsstring option"
  size_bytes :: nat
  buffer :: "byte list"

text \<open>
  What reaches the handler: \<^verbatim>\<open>req.body\<close>, an object of text fields, and \<^verbatim>\<open>req.files\<close>,
  an array. Multer fills both for a multipart request and leaves both undefined for any
  other request, and nothing else in the application parses a body.
\<close>

record express_request =
  req_body :: "(string \<rightharpoonup> jsstring) option"
  req_files :: "uploaded_file list option"

text \<open>
  The constants that lines 19 and 20 bind: the four fields destructured from
  \<^verbatim>\<open>req.body\<close>, each a string or undefined, and \<^verbatim>\<open>files\<close>.
\<close>

record request =
  token :: "jsstring option"
  username :: "jsstring option"
  repo :: "jsstring option"
  spaceId :: "jsstring option"
  files :: "uploaded_file list option"

text \<open>
  An awaited call either throws an error (with its \<^verbatim>\<open>message\<close> and \<^verbatim>\<open>stack\<close>) or
  yields a value. A \<^verbatim>\<open>fetch\<close> yields a response whose \<^verbatim>\<open>status\<close> is known and whose
  body is read by a second awaited call, \<^verbatim>\<open>response.text()\<close>.
\<close>

record js_error =
  message :: jsstring
  stack :: "jsstring option"

datatype 'a promise = Rejects js_error | Resolves 'a

record http_response =
  status :: nat
  body_text :: "jsstring promise"

text \<open>\<^verbatim>\<open>response.ok\<close> of node-fetch: the status is in the range 200 to 299.\<close>

definition ok :: "http_response \<Rightarrow> bool" where
  "ok response = (200 \<le> status response \<and> status response < 300)"

text \<open>
  An outbound call is recorded with its URL, its headers and the value handed to
  \<^verbatim>\<open>JSON.stringify\<close> for its body; every call of the handler is a POST.
\<close>

record http_request =
  url :: jsstring
  headers :: "(string \<times> jsstring) list"
  body :: jsval

text \<open>
  The world the handler runs in: what the remote API answers to each call, and
  \<^verbatim>\<open>JSON.parse\<close> (\<open>None\<close> when it throws). The handler makes at most two calls for
  a request, to different URLs, so a function of the call covers every behaviour of
  the remote side.
\<close>

record env =
  fetch :: "http_request \<Rightarrow> http_response promise"
  JSON_parse :: "jsstring \<Rightarrow> jsval option"

text \<open>What the handler sends back: \<^verbatim>\<open>res.status(s).json(v)\<close>.\<close>

datatype response = Response (status_code: nat) (json: jsval)

section \<open>The handler\<close>

text \<open>Lines 46 and 56: the two per-file checks, in the order the loop makes them.\<close>

definition too_large :: "uploaded_file \<Rightarrow> bool" where
  "too_large f = (size_bytes f > 100 * 1024 * 1024)"

definition invalid_name :: "uploaded_file \<Rightarrow> bool" where
  "invalid_name f =
     (\<not> truthy (field (originalname f)) \<or> trim (to_string (field (originalname f))) = [])"

text \<open>
  Lines 43 to 88: the body of the loop for one file. It yields the object pushed onto
  \<^verbatim>\<open>results\<close> and, for a file that passes both checks, the operation pushed onto
  \<^verbatim>\<open>operations\<close>. With a buffer in memory nothing in the body throws, so the
  \<^verbatim>\<open>catch\<close> of lines 89 to 96 has no branch here.
\<close>

definition process_file :: "uploaded_file \<Rightarrow> jsval \<times> jsval option" where
  "process_file f =
     (if too_large f then
        (JObj [(''file'', field (originalname f)),
               (''success'', JBool False),
               (''error'', JStr (js ''Arquivo muito grande (>100MB)''))],
         None)
      else if invalid_name f then
        (JObj [(''file'', if truthy (field (originalname f))
                          then field (originalname f)
                          else JStr (js ''arquivo-sem-nome'')),
               (''success'', JBool False),
               (''error'', JStr (js (''Nome de arquivo inv'' @ [CHR 0xE1] @ ''lido'')))],
         None)
      else
        (let content = base64_encode (buffer f);
             operation = JObj [(''operation'', JStr (js ''addOrUpdate'')),
                               (''path'', JStr (trim (to_string (field (originalname f))))),
                               (''content'', JStr content),
                               (''encoding'', JStr (js ''base64''))]
         in (JObj [(''file'', field (originalname f)),
                   (''success'', JBool True),
                   (''method'', JStr (js ''commit'')),
                   (''type'', JStr (js ''base64'')),
                   (''size'', JNum (size_bytes f)),
                   (''contentLength'', JNum (length content))],
             Some operation)))"

text \<open>
  Lines 37 to 97: the loop over the files, in their order, pushing onto \<^verbatim>\<open>results\<close>
  and \<^verbatim>\<open>operations\<close>.
\<close>

fun file_loop :: "uploaded_file list \<Rightarrow> jsval list \<Rightarrow> jsval list \<Rightarrow> jsval list \<times> jsval list" where
  "file_loop [] results operations = (results, operations)"
| "file_loop (f # fs) results operations =
     (case process_file f of
        (result, None) \<Rightarrow> file_loop fs (results @ [result]) operations
      | (result, Some operation) \<Rightarrow> file_loop fs (results @ [result]) (operations @ [operation]))"

text \<open>The headers of both outbound calls (lines 145 to 149 and 211 to 215).\<close>

definition auth_headers :: "request \<Rightarrow> (string \<times> jsstring) list" where
  "auth_headers req =
     [(''Authorization'', js ''Bearer '' @ to_string (field (token req))),
      (''Content-Type'', js ''application/json''),
      (''User-Agent'', js ''HF-Visual-Editor/1.0'')]"

text \<open>Lines 116 to 128: the commit URL and body for a space.\<close>

definition space_commit :: "request \<Rightarrow> jsval list \<Rightarrow> http_request" where
  "space_commit req operations =
     \<lparr>url = js ''https://huggingface.co/api/spaces/'' @ to_string (field (spaceId req))
              @ js ''/commit/main'',
      headers = auth_headers req,
      body = JObj [(''files'', JArr (map (\<lambda>op. JObj [(''path'', get op ''path''),
                                                        (''content'', get op ''content''),
                                                        (''encoding'', JStr (js ''base64''))])
                                         operations)),
                   (''summary'', JStr (js ''Upload de '' @ decimal (length operations)
                                       @ js '' arquivo(s) via Visual Editor''))]\<rparr>"

text \<open>Lines 143 to 154: the call that creates the repository.\<close>

definition repo_create :: "request \<Rightarrow> http_request" where
  "repo_create req =
     \<lparr>url = js ''https://huggingface.co/api/repos/create'',
      headers = auth_headers req,
      body = JObj [(''name'', field (repo req)), (''private'', JBool False)]\<rparr>"

text \<open>Lines 139 and 168 to 173: the commit URL and body for a repository.\<close>

definition repo_commit :: "request \<Rightarrow> jsval list \<Rightarrow> http_request" where
  "repo_commit req operations =
     (let repoId = to_string (field (username req)) @ js ''/'' @ to_string (field (repo req))
      in \<lparr>url = js ''https://huggingface.co/api/repos/'' @ repoId @ js ''/commit/main'',
          headers = auth_headers req,
          body = JObj [(''operations'', JArr operations),
                       (''commit_title'', JStr (js ''Upload de '' @ decimal (length operations)
                                                @ js '' arquivo(s) via Visual Editor'')),
                       (''commit_message'',
                          JStr (js ''Adicionados/atualizados os seguintes arquivos:'' @ [0x000A]
                                @ join [0x000A]
                                    (map (\<lambda>op. js ''- '' @ to_string (get op ''path''))
                                       operations)))]\<rparr>)"

text \<open>
  Lines 142 to 166: the attempt to create the repository. Whatever it yields is only
  logged: status 200, status 409, another status (whose body is then read, which may
  throw), or an exception, which the \<^verbatim>\<open>catch\<close> of line 164 takes.
\<close>

datatype provisioning = Created | Already_exists | Create_failed nat jsstring | Create_threw jsstring

definition provision :: "env \<Rightarrow> request \<Rightarrow> provisioning" where
  "provision e req =
     (case fetch e (repo_create req) of
        Rejects createErr \<Rightarrow> Create_threw (message createErr)
      | Resolves createResponse \<Rightarrow>
          if status createResponse = 200 then Created
          else if status createResponse = 409 then Already_exists
          else (case body_text createResponse of
                  Rejects createErr \<Rightarrow> Create_threw (message createErr)
                | Resolves createError \<Rightarrow> Create_failed (status createResponse) createError))"

definition target :: "request \<Rightarrow> jsval" where
  "target req = (if truthy (field (spaceId req)) then JStr (js ''space'') else JStr (js ''repository''))"

text \<open>Lines 264 to 272: the outer \<^verbatim>\<open>catch\<close>.\<close>

definition internal_error :: "request \<Rightarrow> js_error \<Rightarrow> response" where
  "internal_error req err =
     Response 500
       (JObj [(''success'', JBool False),
              (''message'', JStr (js ''Erro interno: '' @ message err)),
              (''target'', target req),
              (''stack'', field (stack err))])"

text \<open>
  Lines 209 to 262: the commit call and the answer to the caller. \<^verbatim>\<open>res.json\<close>
  without \<^verbatim>\<open>res.status\<close> answers 200.
\<close>

definition commit :: "env \<Rightarrow> request \<Rightarrow> nat \<Rightarrow> jsval list \<Rightarrow> jsval list \<Rightarrow> http_request \<Rightarrow> response" where
  "commit e req files_length results operations call =
     (case fetch e call of
        Rejects err \<Rightarrow> internal_error req err
      | Resolves response \<Rightarrow>
          (case body_text response of
             Rejects err \<Rightarrow> internal_error req err
           | Resolves responseText \<Rightarrow>
               if ok response then
                 (let successCount = length (filter (\<lambda>r. truthy (get r ''success'')) results);
                      parsedResponse = (case JSON_parse e responseText of
                                          None \<Rightarrow> JNull
                                        | Some v \<Rightarrow> v)
                  in Response 200
                       (JObj [(''success'', JBool True),
                              (''message'', JStr (decimal successCount @ js ''/''
                                                  @ decimal files_length
                                                  @ js '' arquivos enviados com sucesso'')),
                              (''results'', JArr results),
                              (''response'', JStr responseText),
                              (''parsedResponse'', parsedResponse),
                              (''target'', target req),
                              (''commitUrl'', JStr (url call)),
                              (''operationsCount'', JNum (length operations))]))
               else
                 Response (status response)
                   (JObj [(''success'', JBool False),
                          (''message'', JStr (js ''Erro no commit ('' @ decimal (status response)
                                              @ js ''): '' @ responseText)),
                          (''status'', JNum (status response)),
                          (''results'', JArr results),
                          (''target'', target req),
                          (''commitUrl'', JStr (url call)),
                          (''operationsCount'', JNum (length operations))])))"

text \<open>
  Lines 22 to 273: the handler from the point where lines 19 and 20 have bound their
  constants. It returns the answer to the caller and the outbound calls it made, in the
  order it made them.
\<close>

definition proxy_upload :: "env \<Rightarrow> request \<Rightarrow> response \<times> http_request list" where
  "proxy_upload e req =
     (if \<not> truthy (field (token req)) \<or> \<not> truthy (field (username req))
         \<or> \<not> truthy (field (repo req))
      then (Response 400
              (JObj [(''error'', JStr (js (''token, username, repo e files s'' @ [CHR 0xE3]
                                           @ ''o obrigat'' @ [CHR 0xF3] @ ''rios'')))]), [])
      else case files req of
        None \<Rightarrow>
          (Response 400
             (JObj [(''error'', JStr (js (''token, username, repo e files s'' @ [CHR 0xE3]
                                          @ ''o obrigat'' @ [CHR 0xF3] @ ''rios'')))]), [])
      | Some fs \<Rightarrow>
          if length fs = 0
          then (Response 400
                  (JObj [(''error'', JStr (js (''token, username, repo e files s'' @ [CHR 0xE3]
                                               @ ''o obrigat'' @ [CHR 0xF3] @ ''rios'')))]), [])
          else (case file_loop fs [] [] of
                  (results, operations) \<Rightarrow>
                    if length operations = 0
                    then (Response 400
                            (JObj [(''success'', JBool False),
                                   (''message'', JStr (js (''Nenhum arquivo v'' @ [CHR 0xE1]
                                                           @ ''lido para upload''))),
                                   (''results'', JArr results)]), [])
                    else if truthy (field (spaceId req))
                    then (commit e req (length fs) results operations
                            (space_commit req operations),
                          [space_commit req operations])
                    else (case provision e req of
                            _ \<Rightarrow> (commit e req (length fs) results operations
                                    (repo_commit req operations),
                                  [repo_create req, repo_commit req operations]))))"

text \<open>
  Lines 18 to 273: the whole handler. Line 19 destructures \<^verbatim>\<open>req.body\<close> before the
  \<^verbatim>\<open>try\<close> of line 36 is entered: when \<^verbatim>\<open>req.body\<close> is undefined this throws a
  TypeError that nothing in the handler catches, so the handler sends no answer and
  makes no call.
\<close>

datatype exception = TypeError

definition handler :: "env \<Rightarrow> express_request \<Rightarrow> exception + response \<times> http_request list" where
  "handler e r =
     (case req_body r of
        None \<Rightarrow> Inl TypeError
      | Some b \<Rightarrow>
          Inr (proxy_upload e
                 \<lparr>token = b ''token'', username = b ''username'', repo = b ''repo'',
                  spaceId = b ''spaceId'', files = req_files r\<rparr>))"

section \<open>Sample requests and remote behaviours\<close>

text \<open>
  A remote side that answers the repository-create call with one fixed answer and every
  other call with another. Of the body texts used below only \<^verbatim>\<open>{}\<close> is valid JSON, so
  its \<^verbatim>\<open>JSON.parse\<close> yields the empty object for that text and throws for any other.
  The sample files keep multer's \<^verbatim>\<open>size\<close> equal to the length of the buffer.
\<close>

definition remote :: "http_response promise \<Rightarrow> http_response promise \<Rightarrow> env" where
  "remote create_answer commit_answer =
     \<lparr>fetch = (\<lambda>call. if url call = js ''https://huggingface.co/api/repos/create''
                       then create_answer else commit_answer),
      JSON_parse = (\<lambda>responseText. if responseText = js ''{}'' then Some (JObj []) else None)\<rparr>"

definition answer :: "nat \<Rightarrow> string \<Rightarrow> http_response promise" where
  "answer s t = Resolves \<lparr>status = s, body_text = Resolves (js t)\<rparr>"

definition network_down :: "http_response promise" where
  "network_down = Rejects \<lparr>message = js ''ECONNRESET'', stack = None\<rparr>"

definition readme :: uploaded_file where
  "readme = \<lparr>originalname = Some (js ''readme.txt''), size_bytes = 2, buffer = [0x68, 0x69]\<rparr>"

definition multipart :: "(string \<rightharpoonup> jsstring) \<Rightarrow> uploaded_file list \<Rightarrow> express_request" where
  "multipart b fs = \<lparr>req_body = Some b, req_files = Some fs\<rparr>"

definition upload_of :: "jsstring option \<Rightarrow> uploaded_file list \<Rightarrow> request" where
  "upload_of sid fs =
     \<lparr>token = Some (js ''hf_x''), username = Some (js ''alice''), repo = Some (js ''demo''),
      spaceId = sid, files = Some fs\<rparr>"

definition oversize :: uploaded_file where
  "oversize = \<lparr>originalname = Some (js ''big.bin''), size_bytes = 104857601,
                buffer = replicate 104857601 0\<rparr>"

definition at_limit :: uploaded_file where
  "at_limit = \<lparr>originalname = Some (js ''full.bin''), size_bytes = 104857600,
                buffer = replicate 104857600 0xFF\<rparr>"

definition blank_oversize :: uploaded_file where
  "blank_oversize = \<lparr>originalname = Some (js ''   ''), size_bytes = 104857601,
                      buffer = replicate 104857601 0\<rparr>"

definition blank :: uploaded_file where
  "blank = \<lparr>originalname = Some (js ''   ''), size_bytes = 2, buffer = [0x68, 0x69]\<rparr>"

section \<open>Base64: the encoder has the RFC 4648 decoder as left inverse\<close>

lemma unat_small: "k < 65536 \<Longrightarrow> unat (of_nat k :: 16 word) = k"
  by (simp add: unat_of_nat)

lemma unat_base64_char:
  assumes n: "n < 64"
  shows "unat (base64_char n) =
     (if n < 26 then n + 65 else if n < 52 then n + 71 else if n < 62 then n - 4
      else if n = 62 then 43 else 47)"
proof -
  have a: "unat (of_nat (n + 65) :: 16 word) = n + 65"
    using n by (intro unat_small) simp
  have b: "unat (of_nat (n + 71) :: 16 word) = n + 71"
    using n by (intro unat_small) simp
  have c: "unat (of_nat (n - 4) :: 16 word) = n - 4"
    using n by (intro unat_small) simp
  show ?thesis
    unfolding base64_char_def using a b c by (simp del: of_nat_add of_nat_diff)
qed

lemma base64_index_char: "n < 64 \<Longrightarrow> base64_index (base64_char n) = Some n"
  by (simp add: base64_index_def unat_base64_char Let_def) arith

lemma base64_char_not_pad: "n < 64 \<Longrightarrow> base64_char n \<noteq> base64_pad"
proof
  assume n: "n < 64" and "base64_char n = base64_pad"
  then have "unat (base64_char n) = unat base64_pad" by simp
  with n show False
    by (simp add: unat_base64_char base64_pad_def split: if_splits)
qed

lemma byte_bound: "unat (a :: byte) < 256"
  using unsigned_less [of a, where ?'a = nat] by simp

lemma sextet_bounds:
  "sextet1 a < 64" "sextet2 a b < 64" "sextet3 b c < 64" "sextet4 c < 64"
  using byte_bound [of a] byte_bound [of b] byte_bound [of c]
  unfolding sextet1_def sextet2_def sextet3_def sextet4_def by arith+

lemma sextet_join:
  assumes "B < 256" "C < 256"
  shows "A div 4 * 4 + (A mod 4 * 16 + B div 16) div 16 = (A::nat)"
    "(A mod 4 * 16 + B div 16) mod 16 * 16 + (B mod 16 * 4 + C div 64) div 4 = (B::nat)"
    "(B mod 16 * 4 + C div 64) mod 4 * 64 + C mod 64 = (C::nat)"
proof -
  have b: "B div 16 < 16" and c: "C div 64 < 4"
    using assms by arith+
  have hi: "(A mod 4 * 16 + B div 16) div 16 = A mod 4"
    using b by simp
  have lo: "(A mod 4 * 16 + B div 16) mod 16 = B div 16"
    using b by simp
  have hi': "(B mod 16 * 4 + C div 64) div 4 = B mod 16"
    using c by simp
  have lo': "(B mod 16 * 4 + C div 64) mod 4 = C div 64"
    using c by simp
  show "A div 4 * 4 + (A mod 4 * 16 + B div 16) div 16 = A"
    by (simp only: hi div_mult_mod_eq)
  show "(A mod 4 * 16 + B div 16) mod 16 * 16 + (B mod 16 * 4 + C div 64) div 4 = B"
    by (simp only: lo hi' div_mult_mod_eq)
  show "(B mod 16 * 4 + C div 64) mod 4 * 64 + C mod 64 = C"
    by (simp only: lo' div_mult_mod_eq)
qed

lemma octet1_sextets: "octet1 (sextet1 a) (sextet2 a b) = a"
  unfolding octet1_def sextet1_def sextet2_def
  by (simp only: sextet_join(1) [OF byte_bound byte_bound]) simp

lemma octet2_sextets: "octet2 (sextet2 a b) (sextet3 b c) = b"
  unfolding octet2_def sextet2_def sextet3_def
  by (simp only: sextet_join(2) [OF byte_bound byte_bound]) simp

lemma octet3_sextets: "octet3 (sextet3 b c) (sextet4 c) = c"
  unfolding octet3_def sextet3_def sextet4_def
  by (simp only: sextet_join(3) [OF byte_bound byte_bound]) simp

lemmas base64_facts =
  base64_index_char base64_char_not_pad sextet_bounds octet1_sextets octet2_sextets
  octet3_sextets

lemma decode_group1: "base64_decode (base64_encode [a]) = Some [a]"
  by (simp add: base64_facts)

lemma decode_group2: "base64_decode (base64_encode [a, b]) = Some [a, b]"
  by (simp add: base64_facts)

lemma decode_group3:
  "base64_decode (base64_encode (a # b # c # rest)) =
     map_option (\<lambda>bs. a # b # c # bs) (base64_decode (base64_encode rest))"
  by (simp add: base64_facts split: option.split)

lemma base64_decode_encode: "base64_decode (base64_encode bs) = Some bs"
proof (induction bs rule: base64_encode.induct)
  case 1
  show ?case by simp
next
  case (2 a)
  show ?case by (rule decode_group1)
next
  case (3 a b)
  show ?case by (rule decode_group2)
next
  case (4 a b c rest)
  then show ?case by (simp only: decode_group3 option.map)
qed

section \<open>The file loop\<close>

lemma process_file_too_large:
  "too_large f \<Longrightarrow>
   process_file f =
     (JObj [(''file'', field (originalname f)), (''success'', JBool False),
            (''error'', JStr (js ''Arquivo muito grande (>100MB)''))], None)"
  by (simp add: process_file_def)

lemma process_file_invalid_name:
  "\<not> too_large f \<Longrightarrow> invalid_name f \<Longrightarrow>
   process_file f =
     (JObj [(''file'', if truthy (field (originalname f)) then field (originalname f)
                       else JStr (js ''arquivo-sem-nome'')),
            (''success'', JBool False),
            (''error'', JStr (js (''Nome de arquivo inv'' @ [CHR 0xE1] @ ''lido'')))], None)"
  by (simp add: process_file_def)

lemma process_file_accepted:
  "\<not> too_large f \<Longrightarrow> \<not> invalid_name f \<Longrightarrow>
   process_file f =
     (JObj [(''file'', field (originalname f)), (''success'', JBool True),
            (''method'', JStr (js ''commit'')), (''type'', JStr (js ''base64'')),
            (''size'', JNum (size_bytes f)),
            (''contentLength'', JNum (length (base64_encode (buffer f))))],
      Some (JObj [(''operation'', JStr (js ''addOrUpdate'')),
                  (''path'', JStr (trim (to_string (field (originalname f))))),
                  (''content'', JStr (base64_encode (buffer f))),
                  (''encoding'', JStr (js ''base64''))]))"
  by (simp add: process_file_def Let_def)

lemma snd_process_file: "(snd (process_file f) = None) = (too_large f \<or> invalid_name f)"
  by (simp add: process_file_def Let_def)

lemma success_process_file:
  "truthy (get (fst (process_file f)) ''success'') = (snd (process_file f) \<noteq> None)"
  by (simp add: process_file_def Let_def)

lemma invalid_name_iff:
  "invalid_name f = (case originalname f of None \<Rightarrow> True | Some n \<Rightarrow> trim n = [])"
  by (cases "originalname f") (auto simp: invalid_name_def trim_def)

lemma file_loop_eq:
  "file_loop fs results operations =
     (results @ map (\<lambda>f. fst (process_file f)) fs,
      operations @ List.map_filter (\<lambda>f. snd (process_file f)) fs)"
  by (induction fs arbitrary: results operations)
    (auto split: prod.splits option.splits)

lemma length_map_filter_process:
  "length (List.map_filter (\<lambda>f. snd (process_file f)) fs) =
   length (filter (\<lambda>r. truthy (get r ''success'')) (map (\<lambda>f. fst (process_file f)) fs))"
  by (induction fs) (auto simp: success_process_file split: option.splits)

lemma map_filter_empty_iff:
  "(List.map_filter (\<lambda>f. snd (process_file f)) fs = []) =
   (\<forall>f \<in> set fs. too_large f \<or> invalid_name f)"
  by (induction fs) (auto simp: snd_process_file [symmetric] split: option.splits)

lemma too_large_iff: "too_large f = (104857600 < size_bytes f)"
  by (simp add: too_large_def)

lemma map_filter_drop_rejected:
  "(\<And>f. \<not> P f \<Longrightarrow> g f = None) \<Longrightarrow> List.map_filter g (filter P fs) = List.map_filter g fs"
  by (induction fs) (auto split: option.splits)

lemma map_filter_member:
  "f \<in> set fs \<Longrightarrow> g f = Some y \<Longrightarrow> y \<in> set (List.map_filter g fs)"
  by (induction fs) (auto split: option.splits)

lemma error_messages_differ:
  "js (''Nome de arquivo inv'' @ [CHR 0xE1] @ ''lido'') \<noteq> js ''Arquivo muito grande (>100MB)''"
  by (simp add: js_def)

lemma success_is_true:
  "truthy (get (fst (process_file f)) ''success'')
     = (get (fst (process_file f)) ''success'' = JBool True)"
  by (simp add: process_file_def Let_def)

lemma operations_nonempty:
  "(\<exists>f \<in> set fs. \<not> too_large f \<and> \<not> invalid_name f) \<Longrightarrow> snd (file_loop fs [] []) \<noteq> []"
  by (simp add: file_loop_eq map_filter_empty_iff)

lemma operation_shape:
  "operation \<in> set (snd (file_loop fs [] [])) \<Longrightarrow>
   \<exists>p c. operation = JObj [(''operation'', JStr (js ''addOrUpdate'')), (''path'', JStr p),
                           (''content'', JStr c), (''encoding'', JStr (js ''base64''))]"
proof -
  assume "operation \<in> set (snd (file_loop fs [] []))"
  then obtain f where "snd (process_file f) = Some operation"
    by (auto simp: file_loop_eq List.map_filter_def)
  then show ?thesis
    by (auto simp: process_file_def Let_def split: if_splits)
qed

section \<open>The handler: which calls it makes and what it answers\<close>

lemma handler_parsed:
  "req_body r = Some b \<Longrightarrow>
   handler e r =
     Inr (proxy_upload e
            \<lparr>token = b ''token'', username = b ''username'', repo = b ''repo'',
             spaceId = b ''spaceId'', files = req_files r\<rparr>)"
  by (simp add: handler_def)

lemma missing_parameters_response:
  assumes "\<not> truthy (field (token req)) \<or> \<not> truthy (field (username req))
    \<or> \<not> truthy (field (repo req)) \<or> files req = None \<or> files req = Some []"
  shows "proxy_upload e req =
     (Response 400
        (JObj [(''error'', JStr (js (''token, username, repo e files s'' @ [CHR 0xE3]
                                     @ ''o obrigat'' @ [CHR 0xF3] @ ''rios'')))]), [])"
  using assms by (auto simp: proxy_upload_def split: option.splits)

lemma proxy_upload_checked:
  assumes "truthy (field (token req))" "truthy (field (username req))"
    "truthy (field (repo req))" "files req = Some fs" "fs \<noteq> []"
  shows "proxy_upload e req =
     (let results = map (\<lambda>f. fst (process_file f)) fs;
          operations = List.map_filter (\<lambda>f. snd (process_file f)) fs
      in if operations = []
         then (Response 400
                 (JObj [(''success'', JBool False),
                        (''message'', JStr (js (''Nenhum arquivo v'' @ [CHR 0xE1]
                                                @ ''lido para upload''))),
                        (''results'', JArr results)]), [])
         else if truthy (field (spaceId req))
         then (commit e req (length fs) results operations (space_commit req operations),
               [space_commit req operations])
         else (commit e req (length fs) results operations (repo_commit req operations),
               [repo_create req, repo_commit req operations]))"
  using assms by (simp add: proxy_upload_def file_loop_eq Let_def)

lemma proxy_upload_dispatched:
  assumes "truthy (field (token req))" "truthy (field (username req))"
    "truthy (field (repo req))" "files req = Some fs"
    and accepted: "\<exists>f \<in> set fs. \<not> too_large f \<and> \<not> invalid_name f"
  shows "proxy_upload e req =
     (if truthy (field (spaceId req))
      then (commit e req (length fs) (fst (file_loop fs [] [])) (snd (file_loop fs [] []))
              (space_commit req (snd (file_loop fs [] []))),
            [space_commit req (snd (file_loop fs [] []))])
      else (commit e req (length fs) (fst (file_loop fs [] [])) (snd (file_loop fs [] []))
              (repo_commit req (snd (file_loop fs [] []))),
            [repo_create req, repo_commit req (snd (file_loop fs [] []))]))"
proof -
  from accepted have ne: "fs \<noteq> []" by auto
  from accepted have ops: "List.map_filter (\<lambda>f. snd (process_file f)) fs \<noteq> []"
    by (simp add: map_filter_empty_iff)
  show ?thesis
    by (simp add: proxy_upload_checked [OF assms(1-4) ne] Let_def ops file_loop_eq)
qed

lemma last_call:
  assumes "truthy (field (token req))" "truthy (field (username req))"
    "truthy (field (repo req))" "files req = Some fs"
    and accepted: "\<exists>f \<in> set fs. \<not> too_large f \<and> \<not> invalid_name f"
  shows "fst (proxy_upload e req) =
     commit e req (length fs) (fst (file_loop fs [] [])) (snd (file_loop fs [] []))
       (last (snd (proxy_upload e req)))"
  by (simp add: proxy_upload_dispatched [OF assms])

lemma calls_with_space:
  assumes "truthy (field (spaceId req))"
  shows "snd (proxy_upload e req) = []
    \<or> (\<exists>operations. snd (proxy_upload e req) = [space_commit req operations])"
  using assms
  by (auto simp: proxy_upload_def split: option.splits prod.splits)

lemma commit_answered:
  assumes "fetch e call = Resolves r" "body_text r = Resolves t"
  shows "commit e req n results operations call =
     (if 200 \<le> status r \<and> status r < 300
      then Response 200
             (JObj [(''success'', JBool True),
                    (''message'', JStr (decimal (length (filter (\<lambda>x. truthy (get x ''success'')) results))
                                        @ js ''/'' @ decimal n
                                        @ js '' arquivos enviados com sucesso'')),
                    (''results'', JArr results),
                    (''response'', JStr t),
                    (''parsedResponse'', case JSON_parse e t of None \<Rightarrow> JNull | Some v \<Rightarrow> v),
                    (''target'', target req),
                    (''commitUrl'', JStr (url call)),
                    (''operationsCount'', JNum (length operations))])
      else Response (status r)
             (JObj [(''success'', JBool False),
                    (''message'', JStr (js ''Erro no commit ('' @ decimal (status r)
                                        @ js ''): '' @ t)),
                    (''status'', JNum (status r)),
                    (''results'', JArr results),
                    (''target'', target req),
                    (''commitUrl'', JStr (url call)),
                    (''operationsCount'', JNum (length operations))]))"
  using assms by (simp add: commit_def ok_def Let_def)

lemma commit_results:
  "get (json (commit e req n results operations call)) ''results'' = JUndefined
   \<or> get (json (commit e req n results operations call)) ''results'' = JArr results"
  by (simp add: commit_def internal_error_def Let_def split: promise.splits)

lemma commit_operationsCount:
  "get (json (commit e req n results operations call)) ''operationsCount'' = JUndefined
   \<or> get (json (commit e req n results operations call)) ''operationsCount''
       = JNum (length operations)"
  by (simp add: commit_def internal_error_def Let_def split: promise.splits)

lemma commit_same_answer:
  "fetch e' call = fetch e call \<Longrightarrow> JSON_parse e' = JSON_parse e \<Longrightarrow>
   commit e' req n results operations call = commit e req n results operations call"
  by (simp add: commit_def split: promise.splits)

lemma commit_target:
  "get (json (commit e req n results operations call)) ''target'' = target req"
  by (simp add: commit_def internal_error_def Let_def split: promise.splits)

lemma space_url_not_create:
  "url (space_commit req operations) \<noteq> js ''https://huggingface.co/api/repos/create''"
  by (simp add: space_commit_def js_def)

lemma repo_url_not_create:
  "url (repo_commit req operations) \<noteq> js ''https://huggingface.co/api/repos/create''"
proof
  assume "url (repo_commit req operations) = js ''https://huggingface.co/api/repos/create''"
  then have "length (url (repo_commit req operations))
      = length (js ''https://huggingface.co/api/repos/create'')"
    by simp
  then show False
    by (simp add: repo_commit_def js_def Let_def)
qed

section \<open>The sample requests\<close>

lemma remote_simps:
  "fetch (remote a b) (repo_create req) = a"
  "fetch (remote a b) (repo_commit req operations) = b"
  "fetch (remote a b) (space_commit req operations) = b"
  "JSON_parse (remote a b) = JSON_parse (remote c d)"
  using repo_url_not_create [of req operations] space_url_not_create [of req operations]
  by (simp_all add: remote_def repo_create_def)

lemma sample_fields:
  "truthy (field (token (upload_of sid fs)))" "truthy (field (username (upload_of sid fs)))"
  "truthy (field (repo (upload_of sid fs)))" "files (upload_of sid fs) = Some fs"
  "spaceId (upload_of sid fs) = sid"
  by (simp_all add: upload_of_def js_def)

lemma sample_files:
  "too_large oversize" "\<not> too_large blank" "invalid_name blank"
  "\<not> too_large readme" "\<not> invalid_name readme"
  "length (buffer oversize) = size_bytes oversize" "length (buffer at_limit) = size_bytes at_limit"
  "length (buffer blank) = size_bytes blank" "length (buffer readme) = size_bytes readme"
  by (simp_all add: too_large_def invalid_name_def oversize_def at_limit_def blank_def readme_def
      trim_def is_white_space_def js_def)

lemma sample_accepted:
  "\<exists>f \<in> set [readme]. \<not> too_large f \<and> \<not> invalid_name f"
  "\<exists>f \<in> set [readme, oversize]. \<not> too_large f \<and> \<not> invalid_name f"
  by (simp_all add: sample_files)

lemma sample_loop:
  "file_loop [readme] [] [] =
     ([JObj [(''file'', JStr (js ''readme.txt'')), (''success'', JBool True),
             (''method'', JStr (js ''commit'')), (''type'', JStr (js ''base64'')),
             (''size'', JNum 2), (''contentLength'', JNum 4)]],
      [JObj [(''operation'', JStr (js ''addOrUpdate'')), (''path'', JStr (js ''readme.txt'')),
             (''content'', JStr (js ''aGk='')), (''encoding'', JStr (js ''base64''))]])"
  "file_loop [readme, oversize] [] [] =
     ([JObj [(''file'', JStr (js ''readme.txt'')), (''success'', JBool True),
             (''method'', JStr (js ''commit'')), (''type'', JStr (js ''base64'')),
             (''size'', JNum 2), (''contentLength'', JNum 4)],
       JObj [(''file'', JStr (js ''big.bin'')), (''success'', JBool False),
             (''error'', JStr (js ''Arquivo muito grande (>100MB)''))]],
      [JObj [(''operation'', JStr (js ''addOrUpdate'')), (''path'', JStr (js ''readme.txt'')),
             (''content'', JStr (js ''aGk='')), (''encoding'', JStr (js ''base64''))]])"
  by (simp_all add: process_file_def readme_def oversize_def too_large_def invalid_name_def
      trim_def is_white_space_def js_def base64_char_def base64_pad_def sextet1_def sextet2_def
      sextet3_def)

section \<open>The claims\<close>

text \<open>
  C1. A file is rejected with the oversize reason exactly when its size is strictly
  greater than 104,857,600 bytes. A larger file gets an outcome with \<^verbatim>\<open>success\<close> false
  and no operation; a file of exactly 104,857,600 bytes passes the size check and, its
  name being valid, is accepted with an operation. Oversize files leave the operations
  of the other files of the batch as they are: every file that yields an operation on
  its own has it in the batch.
\<close>

theorem size_ceiling:
  "((get (fst (process_file f)) ''error'' = JStr (js ''Arquivo muito grande (>100MB)''))
      = (104857600 < size_bytes f))
   \<and> (104857600 < size_bytes f \<longrightarrow>
        get (fst (process_file f)) ''success'' = JBool False \<and> snd (process_file f) = None)
   \<and> (size_bytes f = 104857600 \<and> \<not> invalid_name f \<longrightarrow>
        get (fst (process_file f)) ''success'' = JBool True \<and> snd (process_file f) \<noteq> None)
   \<and> snd (file_loop fs [] []) = snd (file_loop (filter (\<lambda>g. size_bytes g \<le> 104857600) fs) [] [])
   \<and> (\<forall>g \<in> set fs. \<forall>operation. snd (process_file g) = Some operation
         \<longrightarrow> operation \<in> set (snd (file_loop fs [] [])))"
proof -
  have a: "(get (fst (process_file f)) ''error'' = JStr (js ''Arquivo muito grande (>100MB)''))
      = (104857600 < size_bytes f)"
    using error_messages_differ
    by (simp add: process_file_def too_large_iff Let_def)
  have b: "104857600 < size_bytes f \<longrightarrow>
        get (fst (process_file f)) ''success'' = JBool False \<and> snd (process_file f) = None"
    by (simp add: process_file_too_large too_large_iff)
  have c: "size_bytes f = 104857600 \<and> \<not> invalid_name f \<longrightarrow>
        get (fst (process_file f)) ''success'' = JBool True \<and> snd (process_file f) \<noteq> None"
    by (simp add: process_file_accepted too_large_iff)
  have "\<And>g. \<not> size_bytes g \<le> 104857600 \<Longrightarrow> snd (process_file g) = None"
    by (simp add: snd_process_file too_large_iff)
  then have d: "snd (file_loop fs [] [])
      = snd (file_loop (filter (\<lambda>g. size_bytes g \<le> 104857600) fs) [] [])"
    by (simp add: file_loop_eq map_filter_drop_rejected)
  have e: "\<forall>g \<in> set fs. \<forall>operation. snd (process_file g) = Some operation
         \<longrightarrow> operation \<in> set (snd (file_loop fs [] []))"
    by (simp add: file_loop_eq map_filter_member)
  from a b c d e show ?thesis by blast
qed

theorem size_ceiling_witness:
  "size_bytes oversize = 104857601 \<and> size_bytes at_limit = 104857600
   \<and> get (fst (process_file oversize)) ''error'' = JStr (js ''Arquivo muito grande (>100MB)'')
   \<and> get (fst (process_file oversize)) ''success'' = JBool False
   \<and> snd (process_file oversize) = None
   \<and> get (fst (process_file at_limit)) ''success'' = JBool True
   \<and> snd (process_file at_limit) \<noteq> None
   \<and> snd (file_loop [oversize, readme] [] []) = snd (file_loop [readme] [] [])
   \<and> snd (process_file readme) \<in> Some ` set (snd (file_loop [oversize, readme] [] []))"
proof -
  have name: "\<not> invalid_name at_limit"
    by (simp add: invalid_name_def at_limit_def trim_def is_white_space_def js_def)
  have op: "snd (process_file readme) \<noteq> None"
    by (simp add: snd_process_file too_large_def invalid_name_def readme_def trim_def is_white_space_def js_def)
  have rd: "readme \<in> set [oversize, readme]" by simp
  have sz: "size_bytes oversize = 104857601" "size_bytes at_limit = 104857600" "size_bytes readme = 2"
    by (simp_all add: oversize_def at_limit_def readme_def)
  show ?thesis
    using size_ceiling [of oversize "[oversize, readme]"] size_ceiling [of at_limit "[]"] name op rd sz
    by auto
qed

text \<open>
  C2 as stated fails: the handler tests \<^verbatim>\<open>spaceId\<close> for truthiness, so a request whose
  \<^verbatim>\<open>spaceId\<close> field is present but empty makes the repository-create call and commits to
  the repository endpoint.
\<close>

theorem empty_space_id_counterexample:
  "spaceId (upload_of (Some []) [readme]) = Some []
   \<and> map url (snd (proxy_upload (remote (answer 200 ''{}'') (answer 200 ''{}''))
        (upload_of (Some []) [readme])))
      = [js ''https://huggingface.co/api/repos/create'',
         js ''https://huggingface.co/api/repos/alice/demo/commit/main'']"
proof -
  have calls: "snd (proxy_upload (remote (answer 200 ''{}'') (answer 200 ''{}''))
        (upload_of (Some []) [readme]))
      = [repo_create (upload_of (Some []) [readme]),
         repo_commit (upload_of (Some []) [readme]) (snd (file_loop [readme] [] []))]"
    by (simp add: proxy_upload_dispatched [OF sample_fields(1-4) sample_accepted(1)]
        sample_fields)
  show ?thesis
    unfolding calls
    by (simp add: upload_of_def repo_create_def repo_commit_def Let_def js_def)
qed

text \<open>
  C2, amended. For every request whose \<^verbatim>\<open>spaceId\<close> is present and not the empty string,
  no outbound call goes to the repository-create endpoint, and when the request reaches
  the dispatcher its single outbound call is the commit to
  \<^verbatim>\<open>https://huggingface.co/api/spaces/{spaceId}/commit/main\<close> with the payload
  \<^verbatim>\<open>{files: [{path, content, encoding}], summary}\<close>.
\<close>

theorem space_target:
  assumes "spaceId req = Some sid" "sid \<noteq> []"
  shows "(\<forall>call \<in> set (snd (proxy_upload e req)).
            url call \<noteq> js ''https://huggingface.co/api/repos/create'')
    \<and> (truthy (field (token req)) \<and> truthy (field (username req)) \<and> truthy (field (repo req))
        \<and> files req = Some fs \<and> (\<exists>f \<in> set fs. \<not> too_large f \<and> \<not> invalid_name f) \<longrightarrow>
        snd (proxy_upload e req) =
          [\<lparr>url = js ''https://huggingface.co/api/spaces/'' @ sid @ js ''/commit/main'',
            headers = auth_headers req,
            body = JObj [(''files'',
                            JArr (map (\<lambda>op. JObj [(''path'', get op ''path''),
                                                   (''content'', get op ''content''),
                                                   (''encoding'', JStr (js ''base64''))])
                                    (snd (file_loop fs [] [])))),
                         (''summary'',
                            JStr (js ''Upload de '' @ decimal (length (snd (file_loop fs [] [])))
                                  @ js '' arquivo(s) via Visual Editor''))]\<rparr>])"
proof -
  have t: "truthy (field (spaceId req))"
    using assms by simp
  have no_create: "\<forall>call \<in> set (snd (proxy_upload e req)).
            url call \<noteq> js ''https://huggingface.co/api/repos/create''"
    using calls_with_space [OF t, of e] space_url_not_create by auto
  have sent: "truthy (field (token req)) \<and> truthy (field (username req)) \<and> truthy (field (repo req))
        \<and> files req = Some fs \<and> (\<exists>f \<in> set fs. \<not> too_large f \<and> \<not> invalid_name f) \<longrightarrow>
        snd (proxy_upload e req) = [space_commit req (snd (file_loop fs [] []))]"
    using t by (simp add: proxy_upload_dispatched)
  from no_create sent show ?thesis
    by (simp add: space_commit_def assms)
qed

theorem space_target_witness:
  "spaceId (upload_of (Some (js ''org/demo-space'')) [readme]) = Some (js ''org/demo-space'')
   \<and> js ''org/demo-space'' \<noteq> []
   \<and> snd (proxy_upload (remote network_down (answer 200 ''{}''))
        (upload_of (Some (js ''org/demo-space'')) [readme]))
      = [\<lparr>url = js ''https://huggingface.co/api/spaces/org/demo-space/commit/main'',
          headers = auth_headers (upload_of (Some (js ''org/demo-space'')) [readme]),
          body = JObj [(''files'', JArr [JObj [(''path'', JStr (js ''readme.txt'')),
                                               (''content'', JStr (js ''aGk='')),
                                               (''encoding'', JStr (js ''base64''))]]),
                       (''summary'', JStr (js ''Upload de 1 arquivo(s) via Visual Editor''))]\<rparr>]"
proof -
  have a: "spaceId (upload_of (Some (js ''org/demo-space'')) [readme]) = Some (js ''org/demo-space'')"
    by (rule sample_fields)
  have b: "js ''org/demo-space'' \<noteq> []"
    by (simp add: js_def)
  note w = space_target [OF a b, where e = "remote network_down (answer 200 ''{}'')"
      and fs = "[readme]", unfolded sample_loop]
  show ?thesis
    using a b w sample_fields [of "Some (js ''org/demo-space'')" "[readme]"] sample_accepted(1)
    by (simp add: js_def)
qed

text \<open>
  C3. For every request without \<^verbatim>\<open>spaceId\<close> that reaches the dispatcher, the outbound
  calls are the repository-create call followed by the commit to
  \<^verbatim>\<open>https://huggingface.co/api/repos/{owner}/{repo}/commit/main\<close> with the payload
  \<^verbatim>\<open>{operations: [{operation: "addOrUpdate", path, content, encoding}], commit_title,
  commit_message}\<close>. What the create call yields (200, 409, any other status, an
  exception) changes nothing: two remote sides that answer the commit call alike give
  the same answer and the same calls.
\<close>

theorem provisioning_never_blocks:
  assumes "truthy (field (token req))" "username req = Some owner" "owner \<noteq> []"
    "repo req = Some name" "name \<noteq> []" "files req = Some fs"
    and accepted: "\<exists>f \<in> set fs. \<not> too_large f \<and> \<not> invalid_name f"
    and absent: "spaceId req = None"
  shows "snd (proxy_upload e req) = [repo_create req, repo_commit req (snd (file_loop fs [] []))]
    \<and> url (repo_create req) = js ''https://huggingface.co/api/repos/create''
    \<and> url (repo_commit req (snd (file_loop fs [] [])))
        = js ''https://huggingface.co/api/repos/'' @ owner @ js ''/'' @ name @ js ''/commit/main''
    \<and> (\<exists>title msg. body (repo_commit req (snd (file_loop fs [] [])))
          = JObj [(''operations'', JArr (snd (file_loop fs [] []))),
                  (''commit_title'', JStr title), (''commit_message'', JStr msg)])
    \<and> (\<forall>operation \<in> set (snd (file_loop fs [] [])).
          \<exists>p c. operation = JObj [(''operation'', JStr (js ''addOrUpdate'')), (''path'', JStr p),
                                  (''content'', JStr c), (''encoding'', JStr (js ''base64''))])
    \<and> (\<forall>e'. fetch e' (repo_commit req (snd (file_loop fs [] [])))
               = fetch e (repo_commit req (snd (file_loop fs [] [])))
             \<and> JSON_parse e' = JSON_parse e
          \<longrightarrow> proxy_upload e' req = proxy_upload e req)
    \<and> repo_create req \<noteq> repo_commit req (snd (file_loop fs [] []))"
proof -
  have u: "truthy (field (username req))" and r: "truthy (field (repo req))"
    using assms by simp_all
  have s: "\<not> truthy (field (spaceId req))"
    using absent by simp
  have distinct: "repo_create req \<noteq> repo_commit req (snd (file_loop fs [] []))"
  proof
    assume "repo_create req = repo_commit req (snd (file_loop fs [] []))"
    then have "url (repo_create req) = url (repo_commit req (snd (file_loop fs [] [])))"
      by simp
    then show False
      using repo_url_not_create [of req "snd (file_loop fs [] [])"]
      by (simp add: repo_create_def)
  qed
  have run: "\<And>e. proxy_upload e req =
      (commit e req (length fs) (fst (file_loop fs [] [])) (snd (file_loop fs [] []))
         (repo_commit req (snd (file_loop fs [] []))),
       [repo_create req, repo_commit req (snd (file_loop fs [] []))])"
    using s by (simp add: proxy_upload_dispatched [OF assms(1) u r assms(6) accepted])
  have calls: "snd (proxy_upload e req)
      = [repo_create req, repo_commit req (snd (file_loop fs [] []))]"
    by (simp add: run)
  have create: "url (repo_create req) = js ''https://huggingface.co/api/repos/create''"
    by (simp add: repo_create_def)
  have endpoint: "url (repo_commit req (snd (file_loop fs [] [])))
        = js ''https://huggingface.co/api/repos/'' @ owner @ js ''/'' @ name @ js ''/commit/main''"
    using assms by (simp add: repo_commit_def Let_def)
  have payload: "\<exists>title msg. body (repo_commit req (snd (file_loop fs [] [])))
          = JObj [(''operations'', JArr (snd (file_loop fs [] []))),
                  (''commit_title'', JStr title), (''commit_message'', JStr msg)]"
    by (simp add: repo_commit_def Let_def)
  have shape: "\<forall>operation \<in> set (snd (file_loop fs [] [])).
          \<exists>p c. operation = JObj [(''operation'', JStr (js ''addOrUpdate'')), (''path'', JStr p),
                                  (''content'', JStr c), (''encoding'', JStr (js ''base64''))]"
    by (intro ballI operation_shape)
  have swallowed: "\<forall>e'. fetch e' (repo_commit req (snd (file_loop fs [] [])))
               = fetch e (repo_commit req (snd (file_loop fs [] [])))
             \<and> JSON_parse e' = JSON_parse e
          \<longrightarrow> proxy_upload e' req = proxy_upload e req"
  proof (intro allI impI, elim conjE)
    fix e' :: env
    assume "fetch e' (repo_commit req (snd (file_loop fs [] [])))
               = fetch e (repo_commit req (snd (file_loop fs [] [])))"
      and "JSON_parse e' = JSON_parse e"
    then have "commit e' req (length fs) (fst (file_loop fs [] [])) (snd (file_loop fs [] []))
         (repo_commit req (snd (file_loop fs [] [])))
      = commit e req (length fs) (fst (file_loop fs [] [])) (snd (file_loop fs [] []))
         (repo_commit req (snd (file_loop fs [] [])))"
      by (rule commit_same_answer)
    then show "proxy_upload e' req = proxy_upload e req"
      by (simp only: run)
  qed
  show ?thesis
    by (intro conjI calls create endpoint payload shape swallowed distinct)
qed

theorem provisioning_never_blocks_witness:
  "spaceId (upload_of None [readme]) = None
   \<and> map url (snd (proxy_upload (remote network_down (answer 200 ''{}'')) (upload_of None [readme])))
      = [js ''https://huggingface.co/api/repos/create'',
         js ''https://huggingface.co/api/repos/alice/demo/commit/main'']
   \<and> proxy_upload (remote network_down (answer 200 ''{}'')) (upload_of None [readme])
      = proxy_upload (remote (answer 200 ''{}'') (answer 200 ''{}'')) (upload_of None [readme])
   \<and> proxy_upload (remote (answer 409 ''exists'') (answer 200 ''{}'')) (upload_of None [readme])
      = proxy_upload (remote (answer 200 ''{}'') (answer 200 ''{}'')) (upload_of None [readme])
   \<and> proxy_upload (remote (answer 500 ''oops'') (answer 200 ''{}'')) (upload_of None [readme])
      = proxy_upload (remote (answer 200 ''{}'') (answer 200 ''{}'')) (upload_of None [readme])"
proof -
  have f: "username (upload_of None [readme]) = Some (js ''alice'')" "js ''alice'' \<noteq> []"
    "repo (upload_of None [readme]) = Some (js ''demo'')" "js ''demo'' \<noteq> []"
    by (simp_all add: upload_of_def js_def)
  note w = provisioning_never_blocks [OF sample_fields(1) f sample_fields(4) sample_accepted(1)
      sample_fields(5), where e = "remote (answer 200 ''{}'') (answer 200 ''{}'')"]
  have parse: "\<And>a. JSON_parse (remote a (answer 200 ''{}''))
      = JSON_parse (remote (answer 200 ''{}'') (answer 200 ''{}''))"
    by (rule remote_simps)
  have same: "\<And>a. fetch (remote a (answer 200 ''{}''))
        (repo_commit (upload_of None [readme]) (snd (file_loop [readme] [] [])))
      = fetch (remote (answer 200 ''{}'') (answer 200 ''{}''))
        (repo_commit (upload_of None [readme]) (snd (file_loop [readme] [] [])))
    \<and> JSON_parse (remote a (answer 200 ''{}''))
      = JSON_parse (remote (answer 200 ''{}'') (answer 200 ''{}''))"
    by (intro conjI parse) (simp only: remote_simps(1-3))
  note calls = w [THEN conjunct1]
  note create = w [THEN conjunct2, THEN conjunct1]
  note endpoint = w [THEN conjunct2, THEN conjunct2, THEN conjunct1]
  note swallowed = w [THEN conjunct2, THEN conjunct2, THEN conjunct2, THEN conjunct2,
      THEN conjunct2, THEN conjunct1, rule_format]
  have eq: "\<And>a. proxy_upload (remote a (answer 200 ''{}'')) (upload_of None [readme])
      = proxy_upload (remote (answer 200 ''{}'') (answer 200 ''{}'')) (upload_of None [readme])"
    by (rule swallowed) (rule same)
  have urls: "map url (snd (proxy_upload (remote network_down (answer 200 ''{}''))
        (upload_of None [readme])))
      = [js ''https://huggingface.co/api/repos/create'',
         js ''https://huggingface.co/api/repos/alice/demo/commit/main'']"
    unfolding eq [of network_down] calls
    by (simp only: list.map create endpoint) (simp add: js_def)
  show ?thesis
    by (intro conjI sample_fields(5) urls eq)
qed

text \<open>
  C4. The commit call is the last outbound call of a request that reaches the
  dispatcher. When it is answered with a status outside 200 to 299, the answer to the
  caller has that same status, \<^verbatim>\<open>success\<close> false and a message holding the status and
  the raw body text; when the status is within 200 to 299 the caller gets status 200,
  \<^verbatim>\<open>success\<close> true and a message holding the number of outcomes with \<^verbatim>\<open>success\<close> true
  over the number of files.
\<close>

theorem commit_status_pass_through:
  assumes "truthy (field (token req))" "truthy (field (username req))"
    "truthy (field (repo req))" "files req = Some fs"
    and accepted: "\<exists>f \<in> set fs. \<not> too_large f \<and> \<not> invalid_name f"
    and answered: "fetch e (last (snd (proxy_upload e req))) = Resolves r"
    and text_read: "body_text r = Resolves t"
  shows "(\<not> (200 \<le> status r \<and> status r < 300) \<longrightarrow>
            status_code (fst (proxy_upload e req)) = status r
          \<and> get (json (fst (proxy_upload e req))) ''success'' = JBool False
          \<and> get (json (fst (proxy_upload e req))) ''message''
              = JStr (js ''Erro no commit ('' @ decimal (status r) @ js ''): '' @ t))
    \<and> (200 \<le> status r \<and> status r < 300 \<longrightarrow>
            status_code (fst (proxy_upload e req)) = 200
          \<and> get (json (fst (proxy_upload e req))) ''success'' = JBool True
          \<and> get (json (fst (proxy_upload e req))) ''message''
              = JStr (decimal (length (filter (\<lambda>x. get x ''success'' = JBool True)
                                         (fst (file_loop fs [] []))))
                      @ js ''/'' @ decimal (length fs) @ js '' arquivos enviados com sucesso''))"
proof -
  have same: "filter (\<lambda>x. truthy (get x ''success'')) (fst (file_loop fs [] []))
      = filter (\<lambda>x. get x ''success'' = JBool True) (fst (file_loop fs [] []))"
    by (rule filter_cong) (auto simp: file_loop_eq success_is_true)
  show ?thesis
    unfolding last_call [OF assms(1-5)] commit_answered [OF answered text_read] same
    by simp
qed

theorem commit_status_pass_through_witness:
  "fetch (remote (answer 200 ''{}'') (answer 422 ''bad''))
      (last (snd (proxy_upload (remote (answer 200 ''{}'') (answer 422 ''bad''))
         (upload_of None [readme, oversize]))))
     = Resolves \<lparr>status = 422, body_text = Resolves (js ''bad'')\<rparr>
   \<and> status_code (fst (proxy_upload (remote (answer 200 ''{}'') (answer 422 ''bad''))
         (upload_of None [readme, oversize]))) = 422
   \<and> get (json (fst (proxy_upload (remote (answer 200 ''{}'') (answer 422 ''bad''))
         (upload_of None [readme, oversize])))) ''message''
       = JStr (js ''Erro no commit (422): bad'')
   \<and> fetch (remote (answer 200 ''{}'') (answer 201 ''{}''))
      (last (snd (proxy_upload (remote (answer 200 ''{}'') (answer 201 ''{}''))
         (upload_of None [readme, oversize]))))
     = Resolves \<lparr>status = 201, body_text = Resolves (js ''{}'')\<rparr>
   \<and> status_code (fst (proxy_upload (remote (answer 200 ''{}'') (answer 201 ''{}''))
         (upload_of None [readme, oversize]))) = 200
   \<and> get (json (fst (proxy_upload (remote (answer 200 ''{}'') (answer 201 ''{}''))
         (upload_of None [readme, oversize])))) ''message''
       = JStr (js ''1/2 arquivos enviados com sucesso'')"
proof -
  have tr: "\<And>e. last (snd (proxy_upload e (upload_of None [readme, oversize])))
      = repo_commit (upload_of None [readme, oversize]) (snd (file_loop [readme, oversize] [] []))"
    by (simp add: proxy_upload_dispatched [OF sample_fields(1-4) sample_accepted(2)] sample_fields)
  have a: "fetch (remote (answer 200 ''{}'') (answer 422 ''bad''))
      (last (snd (proxy_upload (remote (answer 200 ''{}'') (answer 422 ''bad''))
         (upload_of None [readme, oversize]))))
     = Resolves \<lparr>status = 422, body_text = Resolves (js ''bad'')\<rparr>"
    by (simp only: tr remote_simps(1-3) answer_def)
  have b: "fetch (remote (answer 200 ''{}'') (answer 201 ''{}''))
      (last (snd (proxy_upload (remote (answer 200 ''{}'') (answer 201 ''{}''))
         (upload_of None [readme, oversize]))))
     = Resolves \<lparr>status = 201, body_text = Resolves (js ''{}'')\<rparr>"
    by (simp only: tr remote_simps(1-3) answer_def)
  have t: "body_text \<lparr>status = 422, body_text = Resolves (js ''bad'')\<rparr> = Resolves (js ''bad'')"
    "body_text \<lparr>status = 201, body_text = Resolves (js ''{}'')\<rparr> = Resolves (js ''{}'')"
    by simp_all
  note w1 = commit_status_pass_through [OF sample_fields(1-4) sample_accepted(2) a t(1)]
  note w2 = commit_status_pass_through [OF sample_fields(1-4) sample_accepted(2) b t(2),
      unfolded sample_loop]
  show ?thesis
    using a b w1 w2 by (simp add: js_def)
qed

text \<open>
  C5. For a request whose body multer has parsed, the claim holds: when token,
  username or repo is absent, or the file list is empty, the answer has status 400 and
  carries only an \<^verbatim>\<open>error\<close> message, and no outbound call is made. The file list is
  absent only for a request that is not multipart, and there the code departs from the
  claim: \<^verbatim>\<open>req.body\<close> is undefined as well, line 19 throws before the check of line 32
  is reached, and no answer with status 400 is sent, although that check tests
  \<^verbatim>\<open>!files\<close>.
\<close>

theorem missing_parameters:
  "handler e \<lparr>req_body = None, req_files = None\<rparr> = Inl TypeError
   \<and> (req_body r = Some b
        \<and> (b ''token'' = None \<or> b ''username'' = None \<or> b ''repo'' = None
           \<or> req_files r = Some []) \<longrightarrow>
        handler e r =
          Inr (Response 400
                 (JObj [(''error'', JStr (js (''token, username, repo e files s'' @ [CHR 0xE3]
                                              @ ''o obrigat'' @ [CHR 0xF3] @ ''rios'')))]), []))"
proof (intro conjI impI)
  show "handler e \<lparr>req_body = None, req_files = None\<rparr> = Inl TypeError"
    by (simp add: handler_def)
next
  assume h: "req_body r = Some b
        \<and> (b ''token'' = None \<or> b ''username'' = None \<or> b ''repo'' = None
           \<or> req_files r = Some [])"
  let ?req = "\<lparr>token = b ''token'', username = b ''username'', repo = b ''repo'',
                spaceId = b ''spaceId'', files = req_files r\<rparr>"
  from h have "\<not> truthy (field (token ?req)) \<or> \<not> truthy (field (username ?req))
    \<or> \<not> truthy (field (repo ?req)) \<or> files ?req = None \<or> files ?req = Some []"
    by auto
  then have "proxy_upload e ?req =
     (Response 400
        (JObj [(''error'', JStr (js (''token, username, repo e files s'' @ [CHR 0xE3]
                                     @ ''o obrigat'' @ [CHR 0xF3] @ ''rios'')))]), [])"
    by (rule missing_parameters_response)
  with h show "handler e r =
          Inr (Response 400
                 (JObj [(''error'', JStr (js (''token, username, repo e files s'' @ [CHR 0xE3]
                                              @ ''o obrigat'' @ [CHR 0xF3] @ ''rios'')))]), [])"
    by (simp add: handler_def)
qed

theorem missing_parameters_witness:
  "handler (remote (answer 200 ''{}'') (answer 200 ''{}'')) \<lparr>req_body = None, req_files = None\<rparr>
     = Inl TypeError
   \<and> req_body (multipart [''username'' \<mapsto> js ''alice'', ''repo'' \<mapsto> js ''demo''] [readme])
       = Some [''username'' \<mapsto> js ''alice'', ''repo'' \<mapsto> js ''demo'']
   \<and> [''username'' \<mapsto> js ''alice'', ''repo'' \<mapsto> js ''demo''] ''token'' = None
   \<and> handler (remote (answer 200 ''{}'') (answer 200 ''{}''))
        (multipart [''username'' \<mapsto> js ''alice'', ''repo'' \<mapsto> js ''demo''] [readme])
       = Inr (Response 400
                (JObj [(''error'', JStr (js (''token, username, repo e files s'' @ [CHR 0xE3]
                                             @ ''o obrigat'' @ [CHR 0xF3] @ ''rios'')))]), [])"
proof -
  have a: "req_body (multipart [''username'' \<mapsto> js ''alice'', ''repo'' \<mapsto> js ''demo''] [readme])
       = Some [''username'' \<mapsto> js ''alice'', ''repo'' \<mapsto> js ''demo'']"
    by (simp add: multipart_def)
  have b: "[''username'' \<mapsto> js ''alice'', ''repo'' \<mapsto> js ''demo''] ''token'' = None"
    by simp
  note w = missing_parameters [of "remote (answer 200 ''{}'') (answer 200 ''{}'')"
      "multipart [''username'' \<mapsto> js ''alice'', ''repo'' \<mapsto> js ''demo''] [readme]"
      "[''username'' \<mapsto> js ''alice'', ''repo'' \<mapsto> js ''demo'']"]
  have c: "handler (remote (answer 200 ''{}'') (answer 200 ''{}''))
        (multipart [''username'' \<mapsto> js ''alice'', ''repo'' \<mapsto> js ''demo''] [readme])
       = Inr (Response 400
                (JObj [(''error'', JStr (js (''token, username, repo e files s'' @ [CHR 0xE3]
                                             @ ''o obrigat'' @ [CHR 0xF3] @ ''rios'')))]), [])"
    by (rule w [THEN conjunct2, rule_format]) (intro conjI disjI1 a b)
  show ?thesis
    by (intro conjI w [THEN conjunct1] a b c)
qed

text \<open>
  C6. For every request that supplies files of which every one is rejected, the answer
  has status 400 with \<^verbatim>\<open>success\<close> false, no outbound call is made, and the answer
  carries the list of the rejected outcomes, one per file and so not empty. The answer
  to a request with a missing parameter differs: it has an \<^verbatim>\<open>error\<close> field and no
  \<^verbatim>\<open>results\<close>, this one has \<^verbatim>\<open>results\<close> and no \<^verbatim>\<open>error\<close>.
\<close>

theorem no_valid_files:
  assumes "truthy (field (token req))" "truthy (field (username req))"
    "truthy (field (repo req))" "files req = Some fs" "fs \<noteq> []"
    and rejected: "\<forall>f \<in> set fs. too_large f \<or> invalid_name f"
  shows "proxy_upload e req =
       (Response 400
          (JObj [(''success'', JBool False),
                 (''message'', JStr (js (''Nenhum arquivo v'' @ [CHR 0xE1] @ ''lido para upload''))),
                 (''results'', JArr (fst (file_loop fs [] [])))]), [])
    \<and> length (fst (file_loop fs [] [])) = length fs
    \<and> (\<forall>r \<in> set (fst (file_loop fs [] [])). get r ''success'' = JBool False)
    \<and> get (json (fst (proxy_upload e req))) ''error'' = JUndefined
    \<and> (\<forall>req'. token req' = None \<or> username req' = None \<or> repo req' = None
          \<or> files req' = None \<or> files req' = Some []
          \<longrightarrow> get (json (fst (proxy_upload e req'))) ''results'' = JUndefined
            \<and> get (json (fst (proxy_upload e req'))) ''error'' \<noteq> JUndefined)"
proof -
  have none: "List.map_filter (\<lambda>f. snd (process_file f)) fs = []"
    using rejected by (simp add: map_filter_empty_iff)
  have resp: "proxy_upload e req =
       (Response 400
          (JObj [(''success'', JBool False),
                 (''message'', JStr (js (''Nenhum arquivo v'' @ [CHR 0xE1] @ ''lido para upload''))),
                 (''results'', JArr (fst (file_loop fs [] [])))]), [])"
    by (simp add: proxy_upload_checked [OF assms(1-5)] none file_loop_eq)
  have len: "length (fst (file_loop fs [] [])) = length fs"
    by (simp add: file_loop_eq)
  have fail: "\<forall>r \<in> set (fst (file_loop fs [] [])). get r ''success'' = JBool False"
    using rejected by (auto simp: file_loop_eq process_file_def)
  have err: "get (json (fst (proxy_upload e req))) ''error'' = JUndefined"
    by (simp add: resp)
  have other: "\<forall>req'. token req' = None \<or> username req' = None \<or> repo req' = None
          \<or> files req' = None \<or> files req' = Some []
          \<longrightarrow> get (json (fst (proxy_upload e req'))) ''results'' = JUndefined
            \<and> get (json (fst (proxy_upload e req'))) ''error'' \<noteq> JUndefined"
  proof (intro allI impI)
    fix req' :: request
    assume "token req' = None \<or> username req' = None \<or> repo req' = None
          \<or> files req' = None \<or> files req' = Some []"
    then have "\<not> truthy (field (token req')) \<or> \<not> truthy (field (username req'))
      \<or> \<not> truthy (field (repo req')) \<or> files req' = None \<or> files req' = Some []"
      by auto
    then show "get (json (fst (proxy_upload e req'))) ''results'' = JUndefined
            \<and> get (json (fst (proxy_upload e req'))) ''error'' \<noteq> JUndefined"
      by (simp add: missing_parameters_response)
  qed
  from resp len fail err other show ?thesis by blast
qed

theorem no_valid_files_witness:
  "too_large oversize \<and> invalid_name blank
   \<and> status_code (fst (proxy_upload (remote network_down network_down)
         (upload_of None [oversize, blank]))) = 400
   \<and> snd (proxy_upload (remote network_down network_down) (upload_of None [oversize, blank])) = []
   \<and> length (fst (file_loop [oversize, blank] [] [])) = 2
   \<and> get (json (fst (proxy_upload (remote network_down network_down)
         (upload_of None [oversize, blank])))) ''results''
      = JArr (fst (file_loop [oversize, blank] [] []))"
proof -
  have r: "\<forall>f \<in> set [oversize, blank]. too_large f \<or> invalid_name f"
    by (simp add: sample_files)
  have n: "[oversize, blank] \<noteq> []" by simp
  note t = no_valid_files [where req = "upload_of None [oversize, blank]"
      and e = "remote network_down network_down", OF sample_fields(1-4) n r]
  show ?thesis
    using t by (simp add: sample_files)
qed

text \<open>
  C7 as stated fails: the size check runs first, so a file whose name trims to the
  empty string and whose size exceeds the ceiling is rejected with the oversize reason,
  not with the invalid-name reason.
\<close>

theorem blank_name_counterexample:
  "originalname blank_oversize = Some (js ''   '') \<and> trim (js ''   '') = []
   \<and> length (buffer blank_oversize) = size_bytes blank_oversize
   \<and> get (fst (process_file blank_oversize)) ''error''
       = JStr (js ''Arquivo muito grande (>100MB)'')
   \<and> get (fst (process_file blank_oversize)) ''error''
       \<noteq> JStr (js (''Nome de arquivo inv'' @ [CHR 0xE1] @ ''lido''))"
  by (simp add: process_file_def too_large_def blank_oversize_def trim_def is_white_space_def
      js_def)

text \<open>
  C7, amended. For every file whose name is absent or trims to the empty string, and
  whatever content of at most 104,857,600 bytes it has, the outcome has \<^verbatim>\<open>success\<close>
  false and the invalid-name reason, and no operation is built. A file is accepted
  exactly when an operation is built for it, and then the operation's \<^verbatim>\<open>path\<close> is the
  name with surrounding whitespace trimmed, its \<^verbatim>\<open>encoding\<close> is \<^verbatim>\<open>base64\<close> and its
  \<^verbatim>\<open>content\<close> is the base64 text of the buffer.
\<close>

theorem name_check_and_operation:
  "(originalname f = None \<or> (\<exists>n. originalname f = Some n \<and> trim n = []) \<longrightarrow>
      (\<forall>b s. s \<le> 104857600 \<longrightarrow>
         get (fst (process_file (f\<lparr>size_bytes := s, buffer := b\<rparr>))) ''success'' = JBool False
         \<and> get (fst (process_file (f\<lparr>size_bytes := s, buffer := b\<rparr>))) ''error''
            = JStr (js (''Nome de arquivo inv'' @ [CHR 0xE1] @ ''lido''))
         \<and> snd (process_file (f\<lparr>size_bytes := s, buffer := b\<rparr>)) = None))
   \<and> ((get (fst (process_file f)) ''success'' = JBool True) = (snd (process_file f) \<noteq> None))
   \<and> (\<forall>operation. snd (process_file f) = Some operation \<longrightarrow>
        (\<exists>n. originalname f = Some n
           \<and> get operation ''path'' = JStr (trim n)
           \<and> get operation ''encoding'' = JStr (js ''base64'')
           \<and> get operation ''content'' = JStr (base64_encode (buffer f))))"
proof -
  have rejected: "originalname f = None \<or> (\<exists>n. originalname f = Some n \<and> trim n = []) \<longrightarrow>
      (\<forall>b s. s \<le> 104857600 \<longrightarrow>
         get (fst (process_file (f\<lparr>size_bytes := s, buffer := b\<rparr>))) ''success'' = JBool False
         \<and> get (fst (process_file (f\<lparr>size_bytes := s, buffer := b\<rparr>))) ''error''
            = JStr (js (''Nome de arquivo inv'' @ [CHR 0xE1] @ ''lido''))
         \<and> snd (process_file (f\<lparr>size_bytes := s, buffer := b\<rparr>)) = None)"
  proof (intro impI allI)
    fix b s
    assume name: "originalname f = None \<or> (\<exists>n. originalname f = Some n \<and> trim n = [])"
      and size: "s \<le> (104857600 :: nat)"
    have small: "\<not> too_large (f\<lparr>size_bytes := s, buffer := b\<rparr>)"
      using size by (simp add: too_large_def)
    have bad: "invalid_name (f\<lparr>size_bytes := s, buffer := b\<rparr>)"
      using name by (auto simp: invalid_name_iff)
    show "get (fst (process_file (f\<lparr>size_bytes := s, buffer := b\<rparr>))) ''success'' = JBool False
         \<and> get (fst (process_file (f\<lparr>size_bytes := s, buffer := b\<rparr>))) ''error''
            = JStr (js (''Nome de arquivo inv'' @ [CHR 0xE1] @ ''lido''))
         \<and> snd (process_file (f\<lparr>size_bytes := s, buffer := b\<rparr>)) = None"
      unfolding process_file_invalid_name [OF small bad] by simp
  qed
  have accepted: "(get (fst (process_file f)) ''success'' = JBool True)
      = (snd (process_file f) \<noteq> None)"
    using success_process_file [of f] by (simp add: success_is_true)
  have built: "\<forall>operation. snd (process_file f) = Some operation \<longrightarrow>
        (\<exists>n. originalname f = Some n
           \<and> get operation ''path'' = JStr (trim n)
           \<and> get operation ''encoding'' = JStr (js ''base64'')
           \<and> get operation ''content'' = JStr (base64_encode (buffer f)))"
  proof (intro allI impI)
    fix operation
    assume s: "snd (process_file f) = Some operation"
    then have ok: "\<not> too_large f" "\<not> invalid_name f"
      using snd_process_file [of f] by auto
    then obtain n where n: "originalname f = Some n"
      by (cases "originalname f") (auto simp: invalid_name_iff)
    from s have "operation = JObj [(''operation'', JStr (js ''addOrUpdate'')),
                    (''path'', JStr (trim (to_string (field (originalname f))))),
                    (''content'', JStr (base64_encode (buffer f))),
                    (''encoding'', JStr (js ''base64''))]"
      by (simp add: process_file_accepted [OF ok])
    then show "\<exists>n. originalname f = Some n
           \<and> get operation ''path'' = JStr (trim n)
           \<and> get operation ''encoding'' = JStr (js ''base64'')
           \<and> get operation ''content'' = JStr (base64_encode (buffer f))"
      by (simp add: n)
  qed
  show ?thesis
    by (intro conjI rejected accepted built)
qed

theorem name_check_and_operation_witness:
  "originalname blank = Some (js ''   '') \<and> trim (js ''   '') = []
   \<and> get (fst (process_file (blank\<lparr>size_bytes := 3, buffer := [0, 1, 255]\<rparr>))) ''error''
        = JStr (js (''Nome de arquivo inv'' @ [CHR 0xE1] @ ''lido''))
   \<and> snd (process_file (blank\<lparr>size_bytes := 3, buffer := [0, 1, 255]\<rparr>)) = None
   \<and> snd (process_file readme)
       = Some (JObj [(''operation'', JStr (js ''addOrUpdate'')), (''path'', JStr (js ''readme.txt'')),
                     (''content'', JStr (js ''aGk='')), (''encoding'', JStr (js ''base64''))])
   \<and> get (fst (process_file readme)) ''success'' = JBool True
   \<and> trim (js ''readme.txt'') = js ''readme.txt''
   \<and> base64_encode (buffer readme) = js ''aGk=''"
proof -
  have t: "originalname blank = Some (js ''   '')" "trim (js ''   '') = []"
    by (simp_all add: blank_def trim_def is_white_space_def js_def)
  have h: "originalname blank = None \<or> (\<exists>n. originalname blank = Some n \<and> trim n = [])"
    using t by simp
  have three: "(3 :: nat) \<le> 104857600" by simp
  note w1 = name_check_and_operation [of blank, THEN conjunct1, rule_format, OF h three,
      of "[0, 1, 255]"]
  have r: "snd (process_file readme)
       = Some (JObj [(''operation'', JStr (js ''addOrUpdate'')), (''path'', JStr (js ''readme.txt'')),
                     (''content'', JStr (js ''aGk='')), (''encoding'', JStr (js ''base64''))])"
    using sample_loop(1) by (simp split: prod.splits option.splits)
  have n: "originalname readme = Some (js ''readme.txt'')"
    by (simp add: readme_def)
  have acc: "get (fst (process_file readme)) ''success'' = JBool True"
    using name_check_and_operation [of readme, THEN conjunct2, THEN conjunct1] r by simp
  note w2 = name_check_and_operation [of readme, THEN conjunct2, THEN conjunct2, rule_format, OF r]
  have path: "trim (js ''readme.txt'') = js ''readme.txt''"
    using w2 n by auto
  have content: "base64_encode (buffer readme) = js ''aGk=''"
    using w2 by auto
  show ?thesis
    by (intro conjI t w1 [THEN conjunct2, THEN conjunct1] w1 [THEN conjunct2, THEN conjunct2]
        r acc path content)
qed

text \<open>
  C8. For every byte sequence (the empty one, a single byte and any mix of the 256
  byte values included), decoding the base64 text that the encoder produces gives
  back exactly the original bytes; and the \<^verbatim>\<open>content\<close> of the operation built for an
  accepted file is that text for the file's buffer.
\<close>

theorem base64_roundtrip:
  "base64_decode (base64_encode bs) = Some bs
   \<and> (\<forall>operation. snd (process_file f) = Some operation \<longrightarrow>
         get operation ''content'' = JStr (base64_encode (buffer f))
       \<and> base64_decode (base64_encode (buffer f)) = Some (buffer f))"
proof (intro conjI allI impI)
  show "base64_decode (base64_encode bs) = Some bs"
    by (rule base64_decode_encode)
next
  fix operation
  assume s: "snd (process_file f) = Some operation"
  then have ok: "\<not> too_large f" "\<not> invalid_name f"
    using snd_process_file [of f] by auto
  from s show "get operation ''content'' = JStr (base64_encode (buffer f))"
    by (auto simp: process_file_accepted [OF ok])
next
  show "base64_decode (base64_encode (buffer f)) = Some (buffer f)"
    by (rule base64_decode_encode)
qed

theorem base64_roundtrip_witness:
  "snd (process_file readme)
     = Some (JObj [(''operation'', JStr (js ''addOrUpdate'')), (''path'', JStr (js ''readme.txt'')),
                   (''content'', JStr (js ''aGk='')), (''encoding'', JStr (js ''base64''))])
   \<and> base64_encode [0x68, 0x69] = js ''aGk=''
   \<and> base64_decode (js ''aGk='') = Some [0x68, 0x69]
   \<and> base64_decode (base64_encode []) = Some []
   \<and> base64_decode (base64_encode [0x00, 0xFF, 0x80, 0x7F]) = Some [0x00, 0xFF, 0x80, 0x7F]"
proof -
  have r: "snd (process_file readme)
       = Some (JObj [(''operation'', JStr (js ''addOrUpdate'')), (''path'', JStr (js ''readme.txt'')),
                     (''content'', JStr (js ''aGk='')), (''encoding'', JStr (js ''base64''))])"
    using sample_loop(1) by (simp split: prod.splits option.splits)
  have b: "buffer readme = [0x68, 0x69]"
    by (simp add: readme_def)
  note w = base64_roundtrip [of "[0x68, 0x69]" readme, THEN conjunct2, rule_format, OF r]
  have enc: "base64_encode [0x68, 0x69] = js ''aGk=''"
    using w [THEN conjunct1] by (simp add: b)
  have dec: "base64_decode (js ''aGk='') = Some [0x68, 0x69]"
    using w [THEN conjunct2] by (simp only: b enc)
  show ?thesis
    by (intro conjI r enc dec base64_roundtrip [of "[]" readme, THEN conjunct1]
        base64_roundtrip [of "[0x00, 0xFF, 0x80, 0x7F]" readme, THEN conjunct1])
qed

text \<open>
  C9. For every request that passes the missing-parameter check, the loop produces
  exactly one outcome per input file, the outcome at each position being that of the
  file at the same position, and the number of operations in the batch, which is the
  \<^verbatim>\<open>operationsCount\<close> of every answer that carries one, equals the number of outcomes
  with \<^verbatim>\<open>success\<close> true.
\<close>

theorem one_outcome_per_file:
  assumes "truthy (field (token req))" "truthy (field (username req))"
    "truthy (field (repo req))" "files req = Some fs" "fs \<noteq> []"
    and loop: "file_loop fs [] [] = (results, operations)"
  shows "length results = length fs
    \<and> (\<forall>i < length fs. results ! i = fst (process_file (fs ! i)))
    \<and> length operations = length (filter (\<lambda>r. truthy (get r ''success'')) results)
    \<and> (get (json (fst (proxy_upload e req))) ''results'' = JUndefined
        \<or> get (json (fst (proxy_upload e req))) ''results'' = JArr results)
    \<and> (get (json (fst (proxy_upload e req))) ''operationsCount'' = JUndefined
        \<or> get (json (fst (proxy_upload e req))) ''operationsCount''
           = JNum (length (filter (\<lambda>r. truthy (get r ''success'')) results)))"
proof -
  from loop have r: "results = map (\<lambda>f. fst (process_file f)) fs"
    and o: "operations = List.map_filter (\<lambda>f. snd (process_file f)) fs"
    by (simp_all add: file_loop_eq)
  have len: "length operations = length (filter (\<lambda>r. truthy (get r ''success'')) results)"
    unfolding r o by (rule length_map_filter_process)
  have res: "get (json (fst (proxy_upload e req))) ''results'' = JUndefined
        \<or> get (json (fst (proxy_upload e req))) ''results'' = JArr results"
    using commit_results [of e req "length fs" results operations]
    by (simp add: proxy_upload_checked [OF assms(1-5)] Let_def r [symmetric] o [symmetric])
  have cnt: "get (json (fst (proxy_upload e req))) ''operationsCount'' = JUndefined
        \<or> get (json (fst (proxy_upload e req))) ''operationsCount'' = JNum (length operations)"
    using commit_operationsCount [of e req "length fs" results operations]
    by (simp add: proxy_upload_checked [OF assms(1-5)] Let_def r [symmetric] o [symmetric])
  show ?thesis
    using res cnt len by (simp add: r)
qed

theorem one_outcome_per_file_witness:
  "file_loop [readme, oversize] [] []
     = ([JObj [(''file'', JStr (js ''readme.txt'')), (''success'', JBool True),
               (''method'', JStr (js ''commit'')), (''type'', JStr (js ''base64'')),
               (''size'', JNum 2), (''contentLength'', JNum 4)],
         JObj [(''file'', JStr (js ''big.bin'')), (''success'', JBool False),
               (''error'', JStr (js ''Arquivo muito grande (>100MB)''))]],
        [JObj [(''operation'', JStr (js ''addOrUpdate'')), (''path'', JStr (js ''readme.txt'')),
               (''content'', JStr (js ''aGk='')), (''encoding'', JStr (js ''base64''))]])
   \<and> fst (process_file ([readme, oversize] ! 1))
       = JObj [(''file'', JStr (js ''big.bin'')), (''success'', JBool False),
               (''error'', JStr (js ''Arquivo muito grande (>100MB)''))]
   \<and> get (json (fst (proxy_upload (remote network_down (answer 200 ''{}''))
         (upload_of None [readme, oversize])))) ''operationsCount'' = JNum 1"
proof -
  have n: "[readme, oversize] \<noteq> []" by simp
  note w = one_outcome_per_file [where req = "upload_of None [readme, oversize]"
      and e = "remote network_down (answer 200 ''{}'')", OF sample_fields(1-4) n sample_loop(2)]
  have second: "fst (process_file ([readme, oversize] ! 1))
       = JObj [(''file'', JStr (js ''big.bin'')), (''success'', JBool False),
               (''error'', JStr (js ''Arquivo muito grande (>100MB)''))]"
    using w [THEN conjunct2, THEN conjunct1, rule_format, of 1] by simp
  have tr: "last (snd (proxy_upload (remote network_down (answer 200 ''{}''))
        (upload_of None [readme, oversize])))
      = repo_commit (upload_of None [readme, oversize]) (snd (file_loop [readme, oversize] [] []))"
    by (simp add: proxy_upload_dispatched [OF sample_fields(1-4) sample_accepted(2)] sample_fields)
  have answered: "fetch (remote network_down (answer 200 ''{}''))
      (last (snd (proxy_upload (remote network_down (answer 200 ''{}''))
         (upload_of None [readme, oversize]))))
     = Resolves \<lparr>status = 200, body_text = Resolves (js ''{}'')\<rparr>"
    unfolding tr by (simp only: remote_simps(1-3) answer_def)
  have present: "get (json (fst (proxy_upload (remote network_down (answer 200 ''{}''))
         (upload_of None [readme, oversize])))) ''operationsCount'' \<noteq> JUndefined"
    unfolding last_call [OF sample_fields(1-4) sample_accepted(2)]
    by (simp add: commit_answered [OF answered])
  have count: "get (json (fst (proxy_upload (remote network_down (answer 200 ''{}''))
         (upload_of None [readme, oversize])))) ''operationsCount'' = JNum 1"
    using w [THEN conjunct2, THEN conjunct2, THEN conjunct2, THEN conjunct2] present by simp
  show ?thesis
    by (intro conjI sample_loop(2) second count)
qed

text \<open>
  C10. A request whose \<^verbatim>\<open>spaceId\<close> field is present but is the empty string is handled
  as a repository upload: the create call is made, the commit goes to the repository
  endpoint with the repository payload, and the \<^verbatim>\<open>target\<close> of the answer is
  \<^verbatim>\<open>repository\<close>.
\<close>

theorem empty_space_id_is_repository:
  assumes "truthy (field (token req))" "username req = Some owner" "owner \<noteq> []"
    "repo req = Some name" "name \<noteq> []" "files req = Some fs"
    and accepted: "\<exists>f \<in> set fs. \<not> too_large f \<and> \<not> invalid_name f"
    and empty: "spaceId req = Some []"
  shows "snd (proxy_upload e req) = [repo_create req, repo_commit req (snd (file_loop fs [] []))]
    \<and> url (repo_create req) = js ''https://huggingface.co/api/repos/create''
    \<and> url (repo_commit req (snd (file_loop fs [] [])))
        = js ''https://huggingface.co/api/repos/'' @ owner @ js ''/'' @ name @ js ''/commit/main''
    \<and> (\<exists>title msg. body (repo_commit req (snd (file_loop fs [] [])))
          = JObj [(''operations'', JArr (snd (file_loop fs [] []))),
                  (''commit_title'', JStr title), (''commit_message'', JStr msg)])
    \<and> get (json (fst (proxy_upload e req))) ''target'' = JStr (js ''repository'')"
proof -
  have u: "truthy (field (username req))" and r: "truthy (field (repo req))"
    using assms by simp_all
  have s: "\<not> truthy (field (spaceId req))"
    using empty by simp
  have run: "proxy_upload e req =
      (commit e req (length fs) (fst (file_loop fs [] [])) (snd (file_loop fs [] []))
         (repo_commit req (snd (file_loop fs [] []))),
       [repo_create req, repo_commit req (snd (file_loop fs [] []))])"
    using s by (simp add: proxy_upload_dispatched [OF assms(1) u r assms(6) accepted])
  have calls: "snd (proxy_upload e req)
      = [repo_create req, repo_commit req (snd (file_loop fs [] []))]"
    by (simp add: run)
  have create: "url (repo_create req) = js ''https://huggingface.co/api/repos/create''"
    by (simp add: repo_create_def)
  have endpoint: "url (repo_commit req (snd (file_loop fs [] [])))
        = js ''https://huggingface.co/api/repos/'' @ owner @ js ''/'' @ name @ js ''/commit/main''"
    using assms by (simp add: repo_commit_def Let_def)
  have payload: "\<exists>title msg. body (repo_commit req (snd (file_loop fs [] [])))
          = JObj [(''operations'', JArr (snd (file_loop fs [] []))),
                  (''commit_title'', JStr title), (''commit_message'', JStr msg)]"
    by (simp add: repo_commit_def Let_def)
  have tgt: "get (json (fst (proxy_upload e req))) ''target'' = JStr (js ''repository'')"
    using s by (simp add: run commit_target target_def)
  show ?thesis
    by (intro conjI calls create endpoint payload tgt)
qed

theorem empty_space_id_is_repository_witness:
  "spaceId (upload_of (Some []) [readme, oversize]) = Some []
   \<and> map url (snd (proxy_upload (remote (answer 409 ''exists'') (answer 200 ''{}''))
        (upload_of (Some []) [readme, oversize])))
      = [js ''https://huggingface.co/api/repos/create'',
         js ''https://huggingface.co/api/repos/alice/demo/commit/main'']
   \<and> get (json (fst (proxy_upload (remote (answer 409 ''exists'') (answer 200 ''{}''))
        (upload_of (Some []) [readme, oversize])))) ''target'' = JStr (js ''repository'')"
proof -
  have f: "username (upload_of (Some []) [readme, oversize]) = Some (js ''alice'')"
    "js ''alice'' \<noteq> []"
    "repo (upload_of (Some []) [readme, oversize]) = Some (js ''demo'')" "js ''demo'' \<noteq> []"
    by (simp_all add: upload_of_def js_def)
  note w = empty_space_id_is_repository [OF sample_fields(1) f sample_fields(4)
      sample_accepted(2) sample_fields(5),
      where e = "remote (answer 409 ''exists'') (answer 200 ''{}'')"]
  note calls = w [THEN conjunct1]
  note create = w [THEN conjunct2, THEN conjunct1]
  note endpoint = w [THEN conjunct2, THEN conjunct2, THEN conjunct1]
  note tgt = w [THEN conjunct2, THEN conjunct2, THEN conjunct2, THEN conjunct2]
  have urls: "map url (snd (proxy_upload (remote (answer 409 ''exists'') (answer 200 ''{}''))
        (upload_of (Some []) [readme, oversize])))
      = [js ''https://huggingface.co/api/repos/create'',
         js ''https://huggingface.co/api/repos/alice/demo/commit/main'']"
    unfolding calls by (simp only: list.map create endpoint) (simp add: js_def)
  show ?thesis
    by (intro conjI sample_fields(5) urls tgt)
qed

end
